theory Spec2Isabelle
  imports Main
begin

section \<open>The JSON helpers of the s3select package (pkg/s3select/jsonHelpers.go)\<close>

text \<open>
  The file holds four Go functions: \<open>jsonRead\<close>, \<open>jsonValue\<close>, \<open>jsonWhereClause\<close> and
  \<open>jsonEvaluateBetween\<close>. Each is embedded below as a HOL function of the same name.
  A Go result pair \<open>(bool, error)\<close> is a pair \<open>bool \<times> error option\<close> (\<open>None\<close> is the
  \<open>nil\<close> error), so a call that hands back a boolean together with an error is
  representable, as it is in Go. The only effect of the evaluator is the
  \<open>fmt.Println\<close> call of \<open>jsonEvaluateBetween\<close>; it is modelled by passing the
  standard output through every call.
\<close>

subsection \<open>Errors\<close>

text \<open>
  Go error values. \<open>ErrUnsupportedSQLOperation\<close> is the package's own error constant,
  \<open>io_EOF\<close> is \<open>io.EOF\<close>; every other error value is identified by its message.
\<close>

datatype error = ErrUnsupportedSQLOperation | io_EOF | OtherError string

subsection \<open>The parser's expression tree\<close>

text \<open>
  The node kinds of \<open>github.com/xwb1989/sqlparser\<close> that implement its \<open>Expr\<close>
  interface. The six kinds the evaluator dispatches on, and the two it inspects
  inside a comparison (\<open>SQLVal\<close>, \<open>ColName\<close>), carry the fields the code reads. The
  remaining kinds carry their sub-expressions; \<open>OtherExpr\<close> stands for the parser's
  further pointer-to-struct kinds (\<open>ExistsExpr\<close>, \<open>Subquery\<close>, \<open>CaseExpr\<close>, ...), named
  by kind. \<open>NilExpr\<close> is the nil interface value: a query without a WHERE clause, or an
  absent \<open>Escape\<close> field.
\<close>

datatype ValType = StrVal | IntVal | FloatVal | HexNum | HexVal | ValArg | BitVal

datatype expr =
    NilExpr
  | AndExpr expr expr                  \<comment> \<open>Left, Right\<close>
  | OrExpr expr expr                   \<comment> \<open>Left, Right\<close>
  | NotExpr expr
  | ParenExpr expr
  | ComparisonExpr string expr expr expr  \<comment> \<open>Operator, Left, Right, Escape\<close>
  | RangeCond string expr expr expr    \<comment> \<open>Operator, Left, From, To\<close>
  | IsExpr string expr                 \<comment> \<open>Operator, Expr\<close>
  | SQLVal ValType string              \<comment> \<open>Type, Val\<close>
  | NullVal
  | BoolVal bool
  | ColName string string              \<comment> \<open>Name, Qualifier\<close>
  | ValTuple "expr list"
  | ListArg string
  | BinaryExpr string expr expr
  | UnaryExpr string expr
  | FuncExpr string "expr list"
  | OtherExpr string

text \<open>
  \<open>fmt.Sprintf("%v", whereClause) == "false"\<close>. With the verb \<open>%v\<close> a \<open>BoolVal\<close>
  prints as its underlying \<open>bool\<close>, a pointer to a struct as \<open>&{...}\<close>, a slice
  (\<open>ValTuple\<close>, \<open>ListArg\<close>) as \<open>[...]\<close> and the nil interface as \<open><nil>\<close>; no node
  type of the parser has a \<open>String\<close> or \<open>Error\<close> method. The text is \<open>false\<close> exactly
  for \<open>BoolVal(false)\<close>.
\<close>

definition Sprintf_v_is_false :: "expr \<Rightarrow> bool" where
  "Sprintf_v_is_false whereClause = (case whereClause of BoolVal b \<Rightarrow> \<not> b | _ \<Rightarrow> False)"

subsection \<open>The JSON path resolver\<close>

text \<open>
  \<open>gjson.Result\<close> of \<open>github.com/tidwall/gjson\<close> and its methods \<open>String\<close> and
  \<open>Exists\<close>. The float field \<open>Num\<close> has an abstract type; \<open>strconv.FormatFloat\<close> is a
  parameter of \<open>Result_String\<close>.
\<close>

datatype gjson_Type = gjson_Null | gjson_False | gjson_Number | gjson_String | gjson_True | gjson_JSON

record 'f gjson_Result =
  Type :: gjson_Type
  Raw :: string
  Str :: string
  Num :: 'f
  Index :: int

definition Result_String :: "('f \<Rightarrow> string) \<Rightarrow> 'f gjson_Result \<Rightarrow> string" where
  "Result_String FormatFloat t =
     (case Type t of
        gjson_False \<Rightarrow> ''false''
      | gjson_Number \<Rightarrow> FormatFloat (Num t)
      | gjson_String \<Rightarrow> Str t
      | gjson_JSON \<Rightarrow> Raw t
      | gjson_True \<Rightarrow> ''true''
      | gjson_Null \<Rightarrow> '''')"

definition Result_Exists :: "'f gjson_Result \<Rightarrow> bool" where
  "Result_Exists t = (Type t \<noteq> gjson_Null \<or> length (Raw t) \<noteq> 0)"

subsection \<open>Functions the file calls and does not define\<close>

text \<open>
  \<open>evaluateParserType\<close> and \<open>evaluateOperator\<close> live in another file of the package;
  \<open>gjson.Get\<close>, \<open>ColIdent.CompliantName\<close> and \<open>strconv.FormatFloat\<close> are library
  functions. They are parameters of the model. An operand is a Go \<open>interface{}\<close>:
  \<open>None\<close> is the nil interface, \<open>Some v\<close> a value \<open>v\<close>.
\<close>

record ('v, 'f) externals =
  evaluateParserType :: "ValType \<Rightarrow> string \<Rightarrow> 'v option \<times> error option"
  evaluateOperator :: "string \<Rightarrow> string \<Rightarrow> 'v option \<Rightarrow> bool \<times> error option"
  gjson_Get :: "string \<Rightarrow> string \<Rightarrow> 'f gjson_Result"
  CompliantName :: "string \<Rightarrow> string"
  FormatFloat :: "'f \<Rightarrow> string"

subsection \<open>jsonValue\<close>

definition jsonValue :: "('v, 'f) externals \<Rightarrow> string \<Rightarrow> string \<Rightarrow> string" where
  "jsonValue ext input row =
     (let value = gjson_Get ext row input
      in Result_String (FormatFloat ext) value)"

subsection \<open>jsonEvaluateBetween\<close>

text \<open>
  Standard output, as the list of \<open>fmt.Println\<close> calls made so far, each with its
  operands.
\<close>

datatype print_operand = PString string | PMap "string \<Rightarrow> int option"

datatype print_call = Println "print_operand list"

type_synonym stdout = "print_call list"

text \<open>
  The body prints its arguments and returns \<open>false, nil\<close>; everything else in it is
  commented out.
\<close>

definition jsonEvaluateBetween ::
  "expr \<Rightarrow> string \<Rightarrow> string \<Rightarrow> (string \<Rightarrow> int option) \<Rightarrow> stdout \<Rightarrow> (bool \<times> error option) \<times> stdout"
where
  "jsonEvaluateBetween betweenExpr alias record columnNames out =
     ((False, None),
      out @ [Println [PString '' In jsonEvaluateBetween  alias %#v \<newline> record %#v \<newline>   columnNames  %#v'',
                      PString alias, PString record, PMap columnNames]])"

subsection \<open>jsonWhereClause\<close>

text \<open>
  One equation, in the order of the source: the \<open>Sprintf\<close> test, then the type
  switch. A \<open>case\<close> of a Go type switch that matches no arm leaves the switch, and
  control reaches the final \<open>return true, nil\<close>; so does the empty \<open>IsExpr\<close> arm.
  In the \<open>ComparisonExpr\<close> arm \<open>operand\<close> keeps its zero value (the nil interface)
  unless the right side is a \<open>SQLVal\<close>. In the \<open>AndExpr\<close> and \<open>OrExpr\<close> arms
  \<open>leftVal\<close> and \<open>rightVal\<close> keep their zero value \<open>false\<close> unless the side is a
  \<open>ComparisonExpr\<close>.
\<close>

function jsonWhereClause ::
  "('v, 'f) externals \<Rightarrow> string \<Rightarrow> (string \<Rightarrow> int option) \<Rightarrow> string \<Rightarrow> expr \<Rightarrow> stdout
     \<Rightarrow> (bool \<times> error option) \<times> stdout"
where
  "jsonWhereClause ext row columnNames alias whereClause out =
     (if Sprintf_v_is_false whereClause then ((False, None), out)
      else
        (case whereClause of
           IsExpr operator e \<Rightarrow> ((True, None), out)
         | RangeCond operator left from to \<Rightarrow>
             (if operator \<noteq> ''between'' \<and> operator \<noteq> ''not between''
              then ((False, Some ErrUnsupportedSQLOperation), out)
              else if operator = ''not between''
              then
                (case jsonEvaluateBetween whereClause alias row columnNames out of
                   ((myResult, err), out') \<Rightarrow>
                     if err \<noteq> None then ((False, err), out')
                     else ((\<not> myResult, None), out'))
              else
                (case jsonEvaluateBetween whereClause alias row columnNames out of
                   ((myResult, err), out') \<Rightarrow>
                     if err \<noteq> None then ((False, err), out')
                     else ((myResult, None), out')))
         | ComparisonExpr operator left right escape \<Rightarrow>
             (case (case right of
                      SQLVal ty val \<Rightarrow> evaluateParserType ext ty val
                    | _ \<Rightarrow> (None, None)) of
                (operand, err) \<Rightarrow>
                  if err \<noteq> None then ((False, err), out)
                  else
                    (case left of
                       ColName name qualifier \<Rightarrow>
                         (evaluateOperator ext (jsonValue ext (CompliantName ext name) row)
                            operator operand, out)
                     | _ \<Rightarrow> ((True, None), out)))
         | AndExpr left right \<Rightarrow>
             (case (case left of
                      ComparisonExpr lo ll lr le \<Rightarrow>
                        jsonWhereClause ext row columnNames alias left out
                    | _ \<Rightarrow> ((False, None), out)) of
                ((leftVal, lerr), out1) \<Rightarrow>
                  if lerr \<noteq> None then ((False, lerr), out1)
                  else
                    (case (case right of
                             ComparisonExpr ro rl rr re \<Rightarrow>
                               jsonWhereClause ext row columnNames alias right out1
                           | _ \<Rightarrow> ((False, None), out1)) of
                       ((rightVal, rerr), out2) \<Rightarrow>
                         if rerr \<noteq> None then ((False, rerr), out2)
                         else ((rightVal \<and> leftVal, None), out2)))
         | OrExpr left right \<Rightarrow>
             (case (case left of
                      ComparisonExpr lo ll lr le \<Rightarrow>
                        jsonWhereClause ext row columnNames alias left out
                    | _ \<Rightarrow> ((False, None), out)) of
                ((leftVal, lerr), out1) \<Rightarrow>
                  (case (case right of
                           ComparisonExpr ro rl rr re \<Rightarrow>
                             jsonWhereClause ext row columnNames alias right out1
                         | _ \<Rightarrow> ((False, None), out1)) of
                     ((rightVal, rerr), out2) \<Rightarrow> ((rightVal \<or> leftVal, None), out2)))
         | _ \<Rightarrow> ((True, None), out)))"
  by pat_completeness auto
termination
  by (relation "measure (\<lambda>(ext, row, columnNames, alias, whereClause, out). size whereClause)") auto

declare jsonWhereClause.simps [simp del]

subsection \<open>jsonRead\<close>

text \<open>
  The value \<open>json.Decoder.Decode\<close> stores into an \<open>interface{}\<close>: nil for JSON
  \<open>null\<close>, a \<open>bool\<close>, a \<open>float64\<close>, a \<open>string\<close>, a \<open>[]interface{}\<close> or a
  \<open>map[string]interface{}\<close>.
\<close>

datatype 'f go_json =
    GoNil
  | GoBool bool
  | GoFloat64 'f
  | GoString string
  | GoSlice "'f go_json list"
  | GoMap "string \<Rightarrow> 'f go_json option"

text \<open>
  The decoder of \<open>encoding/json\<close> is a state \<open>'d\<close> with its two methods: \<open>More\<close>
  reads the state, \<open>Decode\<close> returns the decoded value, the error and the next state.
\<close>

record ('d, 'f) json_Decoder =
  More :: "'d \<Rightarrow> bool"
  Decode :: "'d \<Rightarrow> ('f go_json \<times> error option) \<times> 'd"

text \<open>
  How a call ends: it returns a value, or \<open>log.Fatal\<close> ends the process with the
  error, or a failed type assertion panics.
\<close>

datatype 'a outcome = Returns 'a | Fatal error | Panics

text \<open>
  Every path through the body of the \<open>for dec.More()\<close> loop leaves it (\<open>break\<close>,
  \<open>log.Fatal\<close> or \<open>return\<close>), so the loop condition is tested once. The assertion
  \<open>m.(map[string]interface{})\<close> has no \<open>ok\<close> result: on any other dynamic type, nil
  included, it panics.
\<close>

definition jsonRead ::
  "('d, 'f) json_Decoder \<Rightarrow> 'd \<Rightarrow> (string \<Rightarrow> 'f go_json option) option outcome \<times> 'd"
where
  "jsonRead reader dec =
     (if More reader dec then
        (case Decode reader dec of
           ((m, err), dec') \<Rightarrow>
             if err = Some io_EOF then (Returns None, dec')
             else
               (case err of
                  Some e \<Rightarrow> (Fatal e, dec')
                | None \<Rightarrow>
                    (case m of
                       GoMap f \<Rightarrow> (Returns (Some f), dec')
                     | _ \<Rightarrow> (Panics, dec'))))
      else (Returns None, dec))"

subsection \<open>jsonWhereClause over any range evaluator\<close>

text \<open>
  The text of \<open>jsonWhereClause\<close> once more, with the function it calls on lines 69
  and 75 taken as the parameter \<open>between\<close> in place of \<open>jsonEvaluateBetween\<close>.
  Nothing else differs; \<open>jsonWhereClause\<close> is the instance at
  \<open>jsonEvaluateBetween\<close> (lemma \<open>jsonWhereClause_is_instance\<close> below). It shows what
  the range-condition arm does with a delegate that returns \<open>true\<close> or an error,
  which the delegate in the tree never does.
\<close>

type_synonym between_delegate =
  "expr \<Rightarrow> string \<Rightarrow> string \<Rightarrow> (string \<Rightarrow> int option) \<Rightarrow> stdout \<Rightarrow> (bool \<times> error option) \<times> stdout"

function jsonWhereClause_with ::
  "between_delegate \<Rightarrow> ('v, 'f) externals \<Rightarrow> string \<Rightarrow> (string \<Rightarrow> int option) \<Rightarrow> string \<Rightarrow> expr
     \<Rightarrow> stdout \<Rightarrow> (bool \<times> error option) \<times> stdout"
where
  "jsonWhereClause_with between ext row columnNames alias whereClause out =
     (if Sprintf_v_is_false whereClause then ((False, None), out)
      else
        (case whereClause of
           IsExpr operator e \<Rightarrow> ((True, None), out)
         | RangeCond operator left from to \<Rightarrow>
             (if operator \<noteq> ''between'' \<and> operator \<noteq> ''not between''
              then ((False, Some ErrUnsupportedSQLOperation), out)
              else if operator = ''not between''
              then
                (case between whereClause alias row columnNames out of
                   ((myResult, err), out') \<Rightarrow>
                     if err \<noteq> None then ((False, err), out')
                     else ((\<not> myResult, None), out'))
              else
                (case between whereClause alias row columnNames out of
                   ((myResult, err), out') \<Rightarrow>
                     if err \<noteq> None then ((False, err), out')
                     else ((myResult, None), out')))
         | ComparisonExpr operator left right escape \<Rightarrow>
             (case (case right of
                      SQLVal ty val \<Rightarrow> evaluateParserType ext ty val
                    | _ \<Rightarrow> (None, None)) of
                (operand, err) \<Rightarrow>
                  if err \<noteq> None then ((False, err), out)
                  else
                    (case left of
                       ColName name qualifier \<Rightarrow>
                         (evaluateOperator ext (jsonValue ext (CompliantName ext name) row)
                            operator operand, out)
                     | _ \<Rightarrow> ((True, None), out)))
         | AndExpr left right \<Rightarrow>
             (case (case left of
                      ComparisonExpr lo ll lr le \<Rightarrow>
                        jsonWhereClause_with between ext row columnNames alias left out
                    | _ \<Rightarrow> ((False, None), out)) of
                ((leftVal, lerr), out1) \<Rightarrow>
                  if lerr \<noteq> None then ((False, lerr), out1)
                  else
                    (case (case right of
                             ComparisonExpr ro rl rr re \<Rightarrow>
                               jsonWhereClause_with between ext row columnNames alias right out1
                           | _ \<Rightarrow> ((False, None), out1)) of
                       ((rightVal, rerr), out2) \<Rightarrow>
                         if rerr \<noteq> None then ((False, rerr), out2)
                         else ((rightVal \<and> leftVal, None), out2)))
         | OrExpr left right \<Rightarrow>
             (case (case left of
                      ComparisonExpr lo ll lr le \<Rightarrow>
                        jsonWhereClause_with between ext row columnNames alias left out
                    | _ \<Rightarrow> ((False, None), out)) of
                ((leftVal, lerr), out1) \<Rightarrow>
                  (case (case right of
                           ComparisonExpr ro rl rr re \<Rightarrow>
                             jsonWhereClause_with between ext row columnNames alias right out1
                         | _ \<Rightarrow> ((False, None), out1)) of
                     ((rightVal, rerr), out2) \<Rightarrow> ((rightVal \<or> leftVal, None), out2)))
         | _ \<Rightarrow> ((True, None), out)))"
  by pat_completeness auto
termination
  by (relation "measure (\<lambda>(between, ext, row, columnNames, alias, whereClause, out). size whereClause)")
     auto

declare jsonWhereClause_with.simps [simp del]

subsection \<open>Decoder.More on the unread input\<close>

text \<open>
  \<open>Decoder.More\<close> of \<open>encoding/json\<close> peeks at the input: it skips blanks
  (\<open>isSpace\<close>: space, tab, carriage return, line feed) and reports whether a byte
  follows that is neither \<open>]\<close> nor \<open>}\<close>. Here the decoder state is the unread
  input.
\<close>

definition isSpace :: "char \<Rightarrow> bool" where
  "isSpace c = (c = CHR '' '' \<or> c = CHR 0x09 \<or> c = CHR 0x0D \<or> c = CHR 0x0A)"

definition Decoder_More :: "string \<Rightarrow> bool" where
  "Decoder_More input =
     (case dropWhile isSpace input of
        [] \<Rightarrow> False
      | c # rest \<Rightarrow> c \<noteq> CHR '']'' \<and> c \<noteq> CHR ''}'')"

subsection \<open>The runs of jsonWhereClause\<close>

text \<open>
  What may differ between two invocations of \<open>jsonWhereClause\<close> on the same
  arguments is made explicit here. The text \<open>fmt.Sprintf\<close> renders for a node:
  with \<open>%v\<close> a pointer nested in a struct prints as its address, so the text of a
  pointer node starts with \<open>&{\<close> and is otherwise open, as is the text of a slice
  after \<open>[\<close>. The three functions that are not in this file, which may keep state
  of their own: each is a relation between its arguments and the results it may
  return. Standard output, which each invocation finds as the earlier ones left it.
\<close>

definition Sprintf_v :: "expr \<Rightarrow> string \<Rightarrow> bool" where
  "Sprintf_v whereClause rendered =
     (case whereClause of
        BoolVal b \<Rightarrow> rendered = (if b then ''true'' else ''false'')
      | NilExpr \<Rightarrow> rendered = ''<nil>''
      | ValTuple es \<Rightarrow> take 1 rendered = ''[''
      | ListArg val \<Rightarrow> take 1 rendered = ''[''
      | _ \<Rightarrow> take 2 rendered = ''&{'')"

text \<open>
  \<open>CompliantName\<close> and \<open>FormatFloat\<close> compute on their argument alone and stay
  functions.
\<close>

record ('v, 'f) helper_relations =
  evaluateParserType_may :: "ValType \<Rightarrow> string \<Rightarrow> 'v option \<times> error option \<Rightarrow> bool"
  evaluateOperator_may :: "string \<Rightarrow> string \<Rightarrow> 'v option \<Rightarrow> bool \<times> error option \<Rightarrow> bool"
  gjson_Get_may :: "string \<Rightarrow> string \<Rightarrow> 'f gjson_Result \<Rightarrow> bool"
  CompliantName_of :: "string \<Rightarrow> string"
  FormatFloat_of :: "'f \<Rightarrow> string"

text \<open>
  The runs, one rule per path through the body of \<open>jsonWhereClause\<close>:
  \<open>jsonWhereClause_run H row columnNames alias whereClause out (result, out')\<close> holds
  when an invocation that starts with \<open>out\<close> on standard output may return
  \<open>result\<close> and leave \<open>out'\<close>. \<open>side_run\<close> is one inner switch of the \<open>AND\<close>
  and \<open>OR\<close> arms: a \<open>ComparisonExpr\<close> side is evaluated, any other side leaves
  the zero value \<open>false\<close>. (The alias is written \<open>tableAlias\<close>, the rendered text
  \<open>rendered\<close> and the extracted value \<open>found\<close>, since \<open>alias\<close>, \<open>text\<close> and
  \<open>value\<close> are reserved words here.)
\<close>

inductive jsonWhereClause_run ::
  "('v, 'f) helper_relations \<Rightarrow> string \<Rightarrow> (string \<Rightarrow> int option) \<Rightarrow> string \<Rightarrow> expr \<Rightarrow> stdout
     \<Rightarrow> (bool \<times> error option) \<times> stdout \<Rightarrow> bool"
and side_run ::
  "('v, 'f) helper_relations \<Rightarrow> string \<Rightarrow> (string \<Rightarrow> int option) \<Rightarrow> string \<Rightarrow> expr \<Rightarrow> stdout
     \<Rightarrow> (bool \<times> error option) \<times> stdout \<Rightarrow> bool"
for H :: "('v, 'f) helper_relations" and row :: string and columnNames :: "string \<Rightarrow> int option"
  and tableAlias :: string
where
  false_marker:
    "Sprintf_v whereClause ''false'' \<Longrightarrow>
     jsonWhereClause_run H row columnNames tableAlias whereClause out ((False, None), out)"
| is_expr:
    "Sprintf_v (IsExpr operator e) rendered \<Longrightarrow> rendered \<noteq> ''false'' \<Longrightarrow>
     jsonWhereClause_run H row columnNames tableAlias (IsExpr operator e) out ((True, None), out)"
| range_unsupported:
    "Sprintf_v (RangeCond operator left from to) rendered \<Longrightarrow> rendered \<noteq> ''false'' \<Longrightarrow>
     operator \<noteq> ''between'' \<Longrightarrow> operator \<noteq> ''not between'' \<Longrightarrow>
     jsonWhereClause_run H row columnNames tableAlias (RangeCond operator left from to) out
       ((False, Some ErrUnsupportedSQLOperation), out)"
| range_not_between:
    "Sprintf_v (RangeCond ''not between'' left from to) rendered \<Longrightarrow> rendered \<noteq> ''false'' \<Longrightarrow>
     jsonEvaluateBetween (RangeCond ''not between'' left from to) tableAlias row columnNames out =
       ((myResult, err), out') \<Longrightarrow>
     jsonWhereClause_run H row columnNames tableAlias (RangeCond ''not between'' left from to) out
       (if err \<noteq> None then ((False, err), out') else ((\<not> myResult, None), out'))"
| range_between:
    "Sprintf_v (RangeCond ''between'' left from to) rendered \<Longrightarrow> rendered \<noteq> ''false'' \<Longrightarrow>
     jsonEvaluateBetween (RangeCond ''between'' left from to) tableAlias row columnNames out =
       ((myResult, err), out') \<Longrightarrow>
     jsonWhereClause_run H row columnNames tableAlias (RangeCond ''between'' left from to) out
       (if err \<noteq> None then ((False, err), out') else ((myResult, None), out'))"
| comparison_literal_error:
    "Sprintf_v (ComparisonExpr operator left (SQLVal ty val) escape) rendered \<Longrightarrow> rendered \<noteq> ''false'' \<Longrightarrow>
     evaluateParserType_may H ty val (operand, Some err) \<Longrightarrow>
     jsonWhereClause_run H row columnNames tableAlias (ComparisonExpr operator left (SQLVal ty val) escape)
       out ((False, Some err), out)"
| comparison_column_literal:
    "Sprintf_v (ComparisonExpr operator (ColName name qualifier) (SQLVal ty val) escape) rendered \<Longrightarrow>
     rendered \<noteq> ''false'' \<Longrightarrow>
     evaluateParserType_may H ty val (operand, None) \<Longrightarrow>
     gjson_Get_may H row (CompliantName_of H name) found \<Longrightarrow>
     evaluateOperator_may H (Result_String (FormatFloat_of H) found) operator operand res \<Longrightarrow>
     jsonWhereClause_run H row columnNames tableAlias
       (ComparisonExpr operator (ColName name qualifier) (SQLVal ty val) escape) out (res, out)"
| comparison_other_literal:
    "Sprintf_v (ComparisonExpr operator left (SQLVal ty val) escape) rendered \<Longrightarrow> rendered \<noteq> ''false'' \<Longrightarrow>
     evaluateParserType_may H ty val (operand, None) \<Longrightarrow>
     \<forall>name qualifier. left \<noteq> ColName name qualifier \<Longrightarrow>
     jsonWhereClause_run H row columnNames tableAlias (ComparisonExpr operator left (SQLVal ty val) escape)
       out ((True, None), out)"
| comparison_column_other:
    "Sprintf_v (ComparisonExpr operator (ColName name qualifier) right escape) rendered \<Longrightarrow>
     rendered \<noteq> ''false'' \<Longrightarrow>
     \<forall>ty val. right \<noteq> SQLVal ty val \<Longrightarrow>
     gjson_Get_may H row (CompliantName_of H name) found \<Longrightarrow>
     evaluateOperator_may H (Result_String (FormatFloat_of H) found) operator None res \<Longrightarrow>
     jsonWhereClause_run H row columnNames tableAlias
       (ComparisonExpr operator (ColName name qualifier) right escape) out (res, out)"
| comparison_other_other:
    "Sprintf_v (ComparisonExpr operator left right escape) rendered \<Longrightarrow> rendered \<noteq> ''false'' \<Longrightarrow>
     \<forall>ty val. right \<noteq> SQLVal ty val \<Longrightarrow>
     \<forall>name qualifier. left \<noteq> ColName name qualifier \<Longrightarrow>
     jsonWhereClause_run H row columnNames tableAlias (ComparisonExpr operator left right escape) out
       ((True, None), out)"
| side_comparison:
    "jsonWhereClause_run H row columnNames tableAlias (ComparisonExpr operator left right escape) out res \<Longrightarrow>
     side_run H row columnNames tableAlias (ComparisonExpr operator left right escape) out res"
| side_other:
    "\<forall>operator left right escape. side \<noteq> ComparisonExpr operator left right escape \<Longrightarrow>
     side_run H row columnNames tableAlias side out ((False, None), out)"
| and_left_error:
    "Sprintf_v (AndExpr left right) rendered \<Longrightarrow> rendered \<noteq> ''false'' \<Longrightarrow>
     side_run H row columnNames tableAlias left out ((leftVal, Some err), out1) \<Longrightarrow>
     jsonWhereClause_run H row columnNames tableAlias (AndExpr left right) out ((False, Some err), out1)"
| and_right_error:
    "Sprintf_v (AndExpr left right) rendered \<Longrightarrow> rendered \<noteq> ''false'' \<Longrightarrow>
     side_run H row columnNames tableAlias left out ((leftVal, None), out1) \<Longrightarrow>
     side_run H row columnNames tableAlias right out1 ((rightVal, Some err), out2) \<Longrightarrow>
     jsonWhereClause_run H row columnNames tableAlias (AndExpr left right) out ((False, Some err), out2)"
| and_both:
    "Sprintf_v (AndExpr left right) rendered \<Longrightarrow> rendered \<noteq> ''false'' \<Longrightarrow>
     side_run H row columnNames tableAlias left out ((leftVal, None), out1) \<Longrightarrow>
     side_run H row columnNames tableAlias right out1 ((rightVal, None), out2) \<Longrightarrow>
     jsonWhereClause_run H row columnNames tableAlias (AndExpr left right) out
       ((rightVal \<and> leftVal, None), out2)"
| or_both:
    "Sprintf_v (OrExpr left right) rendered \<Longrightarrow> rendered \<noteq> ''false'' \<Longrightarrow>
     side_run H row columnNames tableAlias left out ((leftVal, lerr), out1) \<Longrightarrow>
     side_run H row columnNames tableAlias right out1 ((rightVal, rerr), out2) \<Longrightarrow>
     jsonWhereClause_run H row columnNames tableAlias (OrExpr left right) out
       ((rightVal \<or> leftVal, None), out2)"
| no_arm:
    "Sprintf_v whereClause rendered \<Longrightarrow> rendered \<noteq> ''false'' \<Longrightarrow>
     \<forall>operator e. whereClause \<noteq> IsExpr operator e \<Longrightarrow>
     \<forall>operator l f t. whereClause \<noteq> RangeCond operator l f t \<Longrightarrow>
     \<forall>operator l r e. whereClause \<noteq> ComparisonExpr operator l r e \<Longrightarrow>
     \<forall>l r. whereClause \<noteq> AndExpr l r \<Longrightarrow>
     \<forall>l r. whereClause \<noteq> OrExpr l r \<Longrightarrow>
     jsonWhereClause_run H row columnNames tableAlias whereClause out ((True, None), out)"

text \<open>Each helper returns one result per argument list.\<close>

definition deterministic_helpers :: "('v, 'f) helper_relations \<Rightarrow> bool" where
  "deterministic_helpers H =
     ((\<forall>ty val r r'. evaluateParserType_may H ty val r \<longrightarrow> evaluateParserType_may H ty val r' \<longrightarrow> r = r') \<and>
      (\<forall>found operator operand r r'.
          evaluateOperator_may H found operator operand r \<longrightarrow>
          evaluateOperator_may H found operator operand r' \<longrightarrow> r = r') \<and>
      (\<forall>json path r r'. gjson_Get_may H json path r \<longrightarrow> gjson_Get_may H json path r' \<longrightarrow> r = r'))"

text \<open>The helpers of the functional model, as relations.\<close>

definition relations_of :: "('v, 'f) externals \<Rightarrow> ('v, 'f) helper_relations" where
  "relations_of ext =
     \<lparr> evaluateParserType_may = (\<lambda>ty val r. r = evaluateParserType ext ty val),
       evaluateOperator_may = (\<lambda>found operator operand r. r = evaluateOperator ext found operator operand),
       gjson_Get_may = (\<lambda>json path r. r = gjson_Get ext json path),
       CompliantName_of = CompliantName ext,
       FormatFloat_of = FormatFloat ext \<rparr>"

subsection \<open>Instances for concrete runs\<close>

text \<open>
  An instance of the parameters for the record \<open>{}\<close>: \<open>gjson.Get\<close> finds no path
  in it and returns the zero \<open>Result\<close>; a literal's operand is its text, and
  \<open>evaluateOperator\<close> knows \<open>=\<close> on texts only and returns
  \<open>ErrUnsupportedSQLOperation\<close> for any other operator. It is used to run the
  functions on concrete inputs.
\<close>

definition empty_record_externals :: "(string, unit) externals" where
  "empty_record_externals =
     \<lparr> evaluateParserType = (\<lambda>ty val. (Some val, None)),
       evaluateOperator =
         (\<lambda>value operator operand.
            if operator = ''='' then (operand = Some value, None)
            else (False, Some ErrUnsupportedSQLOperation)),
       gjson_Get = (\<lambda>row path. \<lparr> Type = gjson_Null, Raw = [], Str = [], Num = (), Index = 0 \<rparr>),
       CompliantName = (\<lambda>name. name),
       FormatFloat = (\<lambda>n. []) \<rparr>"

text \<open>
  A decoder over a prepared list of \<open>Decode\<close> results: \<open>More\<close> holds while the list
  is not empty, \<open>Decode\<close> hands out the head, and \<open>io.EOF\<close> on the empty list.
\<close>

definition list_Decoder :: "((unit go_json \<times> error option) list, unit) json_Decoder" where
  "list_Decoder =
     \<lparr> More = (\<lambda>ds. ds \<noteq> []),
       Decode = (\<lambda>ds. case ds of [] \<Rightarrow> ((GoNil, Some io_EOF), []) | d # ds' \<Rightarrow> (d, ds')) \<rparr>"

text \<open>
  Two range evaluators for concrete runs: one reports an error (with the boolean
  \<open>true\<close>), one returns \<open>true, nil\<close>.
\<close>

definition failing_between :: between_delegate where
  "failing_between betweenExpr alias record columnNames out =
     ((True, Some (OtherError ''bound is not a number'')), out)"

definition true_between :: between_delegate where
  "true_between betweenExpr alias record columnNames out = ((True, None), out)"

section \<open>The arms of jsonWhereClause\<close>

text \<open>One equation per arm of the type switch, unfolded from the definition.\<close>

lemma jsonWhereClause_IsExpr:
  "jsonWhereClause ext row columnNames alias (IsExpr operator e) out = ((True, None), out)"
  by (simp add: jsonWhereClause.simps Sprintf_v_is_false_def)

lemma jsonWhereClause_RangeCond:
  "jsonWhereClause ext row columnNames alias (RangeCond operator left from to) out =
     (if operator \<noteq> ''between'' \<and> operator \<noteq> ''not between''
      then ((False, Some ErrUnsupportedSQLOperation), out)
      else
        (case jsonEvaluateBetween (RangeCond operator left from to) alias row columnNames out of
           ((myResult, Some e), out') \<Rightarrow> ((False, Some e), out')
         | ((myResult, None), out') \<Rightarrow>
             ((if operator = ''not between'' then \<not> myResult else myResult, None), out')))"
  by (subst jsonWhereClause.simps)
     (auto simp: Sprintf_v_is_false_def split: prod.splits option.splits)

lemma jsonWhereClause_ComparisonExpr:
  "jsonWhereClause ext row columnNames alias (ComparisonExpr operator left right escape) out =
     (case (case right of SQLVal ty val \<Rightarrow> evaluateParserType ext ty val | _ \<Rightarrow> (None, None)) of
        (operand, err) \<Rightarrow>
          if err \<noteq> None then ((False, err), out)
          else
            (case left of
               ColName name qualifier \<Rightarrow>
                 (evaluateOperator ext (jsonValue ext (CompliantName ext name) row) operator operand,
                  out)
             | _ \<Rightarrow> ((True, None), out)))"
  by (subst jsonWhereClause.simps) (simp add: Sprintf_v_is_false_def)

lemma jsonWhereClause_AndExpr:
  "jsonWhereClause ext row columnNames alias (AndExpr left right) out =
     (case (case left of
              ComparisonExpr lo ll lr le \<Rightarrow> jsonWhereClause ext row columnNames alias left out
            | _ \<Rightarrow> ((False, None), out)) of
        ((leftVal, lerr), out1) \<Rightarrow>
          if lerr \<noteq> None then ((False, lerr), out1)
          else
            (case (case right of
                     ComparisonExpr ro rl rr re \<Rightarrow>
                       jsonWhereClause ext row columnNames alias right out1
                   | _ \<Rightarrow> ((False, None), out1)) of
               ((rightVal, rerr), out2) \<Rightarrow>
                 if rerr \<noteq> None then ((False, rerr), out2)
                 else ((rightVal \<and> leftVal, None), out2)))"
  by (subst jsonWhereClause.simps) (simp add: Sprintf_v_is_false_def)

lemma jsonWhereClause_OrExpr:
  "jsonWhereClause ext row columnNames alias (OrExpr left right) out =
     (case (case left of
              ComparisonExpr lo ll lr le \<Rightarrow> jsonWhereClause ext row columnNames alias left out
            | _ \<Rightarrow> ((False, None), out)) of
        ((leftVal, lerr), out1) \<Rightarrow>
          (case (case right of
                   ComparisonExpr ro rl rr re \<Rightarrow>
                     jsonWhereClause ext row columnNames alias right out1
                 | _ \<Rightarrow> ((False, None), out1)) of
             ((rightVal, rerr), out2) \<Rightarrow> ((rightVal \<or> leftVal, None), out2)))"
  by (subst jsonWhereClause.simps) (simp add: Sprintf_v_is_false_def)

lemma jsonWhereClause_BoolVal:
  "jsonWhereClause ext row columnNames alias (BoolVal b) out = ((b, None), out)"
  by (simp add: jsonWhereClause.simps Sprintf_v_is_false_def)

text \<open>Every node the switch has no arm for reaches the final \<open>return true, nil\<close>.\<close>

lemma jsonWhereClause_fallthrough:
  "whereClause \<noteq> BoolVal False \<Longrightarrow>
   (\<forall>operator e. whereClause \<noteq> IsExpr operator e) \<Longrightarrow>
   (\<forall>operator l f t. whereClause \<noteq> RangeCond operator l f t) \<Longrightarrow>
   (\<forall>operator l r e. whereClause \<noteq> ComparisonExpr operator l r e) \<Longrightarrow>
   (\<forall>l r. whereClause \<noteq> AndExpr l r) \<Longrightarrow>
   (\<forall>l r. whereClause \<noteq> OrExpr l r) \<Longrightarrow>
   jsonWhereClause ext row columnNames alias whereClause out = ((True, None), out)"
  by (cases whereClause) (simp_all add: jsonWhereClause.simps Sprintf_v_is_false_def)

section \<open>A comparison prints nothing\<close>

text \<open>Its result is the one it has on an empty output, and the output is left as it was.\<close>

lemma ComparisonExpr_stdout:
  "jsonWhereClause ext row columnNames alias (ComparisonExpr operator left right escape) out =
     (fst (jsonWhereClause ext row columnNames alias (ComparisonExpr operator left right escape) []),
      out)"
  by (simp add: jsonWhereClause_ComparisonExpr split: prod.splits expr.splits)

lemma ComparisonExpr_keeps_stdout:
  "snd (jsonWhereClause ext row columnNames alias (ComparisonExpr operator left right escape) out) =
   out"
  by (subst ComparisonExpr_stdout) simp

section \<open>jsonWhereClause as an instance of the evaluator over any range evaluator\<close>

lemma with_ComparisonExpr:
  "jsonWhereClause_with jsonEvaluateBetween ext row columnNames alias
     (ComparisonExpr operator left right escape) out =
   jsonWhereClause ext row columnNames alias (ComparisonExpr operator left right escape) out"
  by (subst jsonWhereClause_with.simps, subst jsonWhereClause.simps) simp

lemma with_side:
  "(case side of
      ComparisonExpr operator l r e \<Rightarrow>
        jsonWhereClause_with jsonEvaluateBetween ext row columnNames alias side out
    | _ \<Rightarrow> ((False, None), out)) =
   (case side of
      ComparisonExpr operator l r e \<Rightarrow> jsonWhereClause ext row columnNames alias side out
    | _ \<Rightarrow> ((False, None), out))"
  by (cases side) (simp_all add: with_ComparisonExpr)

lemma jsonWhereClause_is_instance:
  "jsonWhereClause ext row columnNames alias whereClause out =
   jsonWhereClause_with jsonEvaluateBetween ext row columnNames alias whereClause out"
proof (cases whereClause)
  case (AndExpr left right)
  show ?thesis
    unfolding AndExpr jsonWhereClause_AndExpr
    by (subst jsonWhereClause_with.simps)
       (simp add: Sprintf_v_is_false_def with_side cong: prod.case_cong if_cong)
next
  case (OrExpr left right)
  show ?thesis
    unfolding OrExpr jsonWhereClause_OrExpr
    by (subst jsonWhereClause_with.simps)
       (simp add: Sprintf_v_is_false_def with_side cong: prod.case_cong if_cong)
qed (simp_all add: jsonWhereClause_with.simps jsonWhereClause.simps)

section \<open>Runs\<close>

text \<open>
  The rendered text is \<open>false\<close> for the node \<open>BoolVal(false)\<close> and for no other
  node, whatever the addresses in it.
\<close>

lemma Sprintf_v_false: "Sprintf_v whereClause ''false'' = Sprintf_v_is_false whereClause"
  by (cases whereClause) (simp_all add: Sprintf_v_def Sprintf_v_is_false_def)

lemma Sprintf_v_pointer: "Sprintf_v whereClause ''&{}'' \<or> Sprintf_v whereClause ''[]'' \<or>
   Sprintf_v whereClause ''<nil>'' \<or> Sprintf_v whereClause ''true'' \<or> Sprintf_v_is_false whereClause"
  by (cases whereClause) (simp_all add: Sprintf_v_def Sprintf_v_is_false_def)

lemma Sprintf_v_other:
  assumes "\<not> Sprintf_v_is_false whereClause"
  shows "\<exists>rendered. Sprintf_v whereClause rendered \<and> rendered \<noteq> ''false''"
proof -
  consider "Sprintf_v whereClause ''&{}''" | "Sprintf_v whereClause ''[]''"
    | "Sprintf_v whereClause ''<nil>''" | "Sprintf_v whereClause ''true''"
    using assms Sprintf_v_pointer [of whereClause] by auto
  then show ?thesis
  proof cases
    case 1
    then show ?thesis by (intro exI [where x = "''&{}''"]) simp
  next
    case 2
    then show ?thesis by (intro exI [where x = "''[]''"]) simp
  next
    case 3
    then show ?thesis by (intro exI [where x = "''<nil>''"]) simp
  next
    case 4
    then show ?thesis by (intro exI [where x = "''true''"]) simp
  qed
qed

lemma comparison_run_cases:
  assumes "jsonWhereClause_run H row columnNames tableAlias
             (ComparisonExpr operator left right escape) out R"
  obtains
    (literal_error) ty val operand err where
      "right = SQLVal ty val" "evaluateParserType_may H ty val (operand, Some err)"
      "R = ((False, Some err), out)"
  | (column_literal) name qualifier ty val operand found res where
      "left = ColName name qualifier" "right = SQLVal ty val"
      "evaluateParserType_may H ty val (operand, None)"
      "gjson_Get_may H row (CompliantName_of H name) found"
      "evaluateOperator_may H (Result_String (FormatFloat_of H) found) operator operand res"
      "R = (res, out)"
  | (other_literal) ty val operand where
      "right = SQLVal ty val" "evaluateParserType_may H ty val (operand, None)"
      "\<forall>name qualifier. left \<noteq> ColName name qualifier" "R = ((True, None), out)"
  | (column_other) name qualifier found res where
      "left = ColName name qualifier" "\<forall>ty val. right \<noteq> SQLVal ty val"
      "gjson_Get_may H row (CompliantName_of H name) found"
      "evaluateOperator_may H (Result_String (FormatFloat_of H) found) operator None res"
      "R = (res, out)"
  | (other_other)
      "\<forall>ty val. right \<noteq> SQLVal ty val" "\<forall>name qualifier. left \<noteq> ColName name qualifier"
      "R = ((True, None), out)"
  using assms
proof (cases rule: jsonWhereClause_run.cases)
  case false_marker
  then show ?thesis by (simp add: Sprintf_v_def)
next
  case comparison_literal_error
  then show ?thesis by (auto intro: literal_error)
next
  case comparison_column_literal
  then show ?thesis by (auto intro: column_literal)
next
  case comparison_other_literal
  then show ?thesis by (auto intro: other_literal)
next
  case comparison_column_other
  then show ?thesis by (auto intro: column_other)
next
  case comparison_other_other
  then show ?thesis by (auto intro: other_other)
qed simp_all

lemma comparison_run_stdout:
  "jsonWhereClause_run H row columnNames tableAlias (ComparisonExpr operator left right escape)
     out (res, out') \<Longrightarrow> out' = out"
  by (erule comparison_run_cases) simp_all

lemma comparison_run_deterministic:
  assumes det: "deterministic_helpers H"
    and one: "jsonWhereClause_run H row columnNames tableAlias
                (ComparisonExpr operator left right escape) out1 (res1, o1)"
    and two: "jsonWhereClause_run H row columnNames tableAlias
                (ComparisonExpr operator left right escape) out2 (res2, o2)"
  shows "res1 = res2"
proof -
  have pt: "\<And>ty val r r'. evaluateParserType_may H ty val r \<Longrightarrow> evaluateParserType_may H ty val r' \<Longrightarrow> r = r'"
    using det unfolding deterministic_helpers_def by blast
  have op: "\<And>v operator operand r r'. evaluateOperator_may H v operator operand r \<Longrightarrow>
              evaluateOperator_may H v operator operand r' \<Longrightarrow> r = r'"
    using det unfolding deterministic_helpers_def by blast
  have get: "\<And>json path r r'. gjson_Get_may H json path r \<Longrightarrow> gjson_Get_may H json path r' \<Longrightarrow> r = r'"
    using det unfolding deterministic_helpers_def by blast
  from one show ?thesis
  proof (cases rule: comparison_run_cases)
    case literal_error
    from two show ?thesis
      by (cases rule: comparison_run_cases) (use literal_error in \<open>auto dest: pt\<close>)
  next
    case column_literal
    from two show ?thesis
      by (cases rule: comparison_run_cases) (use column_literal in \<open>auto dest: pt get op\<close>)
  next
    case other_literal
    from two show ?thesis
      by (cases rule: comparison_run_cases) (use other_literal in \<open>auto dest: pt\<close>)
  next
    case column_other
    from two show ?thesis
      by (cases rule: comparison_run_cases) (use column_other in \<open>auto dest: get op\<close>)
  next
    case other_other
    from two show ?thesis
      by (cases rule: comparison_run_cases) (use other_other in auto)
  qed
qed

lemma side_run_deterministic:
  assumes det: "deterministic_helpers H"
    and one: "side_run H row columnNames tableAlias side out1 (res1, o1)"
    and two: "side_run H row columnNames tableAlias side out2 (res2, o2)"
  shows "res1 = res2 \<and> o1 = out1 \<and> o2 = out2"
  using one
proof (cases rule: side_run.cases)
  case side_comparison
  note first = this
  from two show ?thesis
  proof (cases rule: side_run.cases)
    case side_comparison
    with first det show ?thesis
      by (auto dest: comparison_run_stdout comparison_run_deterministic)
  next
    case side_other
    with first show ?thesis by simp
  qed
next
  case side_other
  note first = this
  from two show ?thesis
  proof (cases rule: side_run.cases)
    case side_comparison
    with first show ?thesis by simp
  next
    case side_other
    with first show ?thesis by simp
  qed
qed

lemma Sprintf_v_of_false:
  "Sprintf_v_is_false whereClause \<Longrightarrow> Sprintf_v whereClause rendered \<Longrightarrow> rendered = ''false''"
  by (cases whereClause) (simp_all add: Sprintf_v_def Sprintf_v_is_false_def)

lemma fixed_arm_run:
  assumes "jsonWhereClause_run H row columnNames tableAlias whereClause out (res, out')"
    and "\<forall>operator l r e. whereClause \<noteq> ComparisonExpr operator l r e"
    and "\<forall>l r. whereClause \<noteq> AndExpr l r"
    and "\<forall>l r. whereClause \<noteq> OrExpr l r"
  shows "res = fst (jsonWhereClause ext row columnNames tableAlias whereClause [])"
  using assms(1)
proof (cases rule: jsonWhereClause_run.cases)
  case false_marker
  then show ?thesis
    by (simp add: Sprintf_v_false jsonWhereClause.simps)
next
  case is_expr
  then show ?thesis by (simp add: jsonWhereClause_IsExpr)
next
  case range_unsupported
  then show ?thesis by (simp add: jsonWhereClause_RangeCond)
next
  case range_not_between
  then show ?thesis by (auto simp: jsonWhereClause_RangeCond jsonEvaluateBetween_def)
next
  case range_between
  then show ?thesis by (auto simp: jsonWhereClause_RangeCond jsonEvaluateBetween_def)
next
  case no_arm
  then have "\<not> Sprintf_v_is_false whereClause"
    using Sprintf_v_of_false by blast
  with no_arm show ?thesis
    by (simp add: jsonWhereClause_fallthrough Sprintf_v_is_false_def split: expr.splits bool.splits)
qed (use assms in simp_all)

lemma and_run_cases:
  assumes "jsonWhereClause_run H row columnNames tableAlias (AndExpr left right) out R"
  obtains
    (left_error) leftVal err out1 where
      "side_run H row columnNames tableAlias left out ((leftVal, Some err), out1)"
      "R = ((False, Some err), out1)"
  | (right_error) leftVal out1 rightVal err out2 where
      "side_run H row columnNames tableAlias left out ((leftVal, None), out1)"
      "side_run H row columnNames tableAlias right out1 ((rightVal, Some err), out2)"
      "R = ((False, Some err), out2)"
  | (both) leftVal out1 rightVal out2 where
      "side_run H row columnNames tableAlias left out ((leftVal, None), out1)"
      "side_run H row columnNames tableAlias right out1 ((rightVal, None), out2)"
      "R = ((rightVal \<and> leftVal, None), out2)"
  using assms
proof (cases rule: jsonWhereClause_run.cases)
  case false_marker
  then show ?thesis by (simp add: Sprintf_v_def)
next
  case and_left_error
  then show ?thesis by (auto intro: left_error)
next
  case and_right_error
  then show ?thesis by (auto intro: right_error)
next
  case and_both
  then show ?thesis by (auto intro: both)
qed simp_all

lemma or_run_cases:
  assumes "jsonWhereClause_run H row columnNames tableAlias (OrExpr left right) out R"
  obtains leftVal lerr out1 rightVal rerr out2 where
      "side_run H row columnNames tableAlias left out ((leftVal, lerr), out1)"
      "side_run H row columnNames tableAlias right out1 ((rightVal, rerr), out2)"
      "R = ((rightVal \<or> leftVal, None), out2)"
  using assms
proof (cases rule: jsonWhereClause_run.cases)
  case false_marker
  then show ?thesis by (simp add: Sprintf_v_def)
next
  case or_both
  then show ?thesis by (auto intro: that)
qed simp_all

lemma and_run_deterministic:
  assumes det: "deterministic_helpers H"
    and one: "jsonWhereClause_run H row columnNames tableAlias (AndExpr left right) out1 (res1, o1)"
    and two: "jsonWhereClause_run H row columnNames tableAlias (AndExpr left right) out2 (res2, o2)"
  shows "res1 = res2"
proof -
  note sd = side_run_deterministic [OF det]
  from one show ?thesis
  proof (cases rule: and_run_cases)
    case left_error
    from two show ?thesis
      by (cases rule: and_run_cases) (use left_error in \<open>auto dest: sd\<close>)
  next
    case right_error
    from two show ?thesis
      by (cases rule: and_run_cases) (use right_error in \<open>auto dest: sd\<close>)
  next
    case both
    from two show ?thesis
      by (cases rule: and_run_cases) (use both in \<open>auto dest: sd\<close>)
  qed
qed

lemma or_run_deterministic:
  assumes det: "deterministic_helpers H"
    and one: "jsonWhereClause_run H row columnNames tableAlias (OrExpr left right) out1 (res1, o1)"
    and two: "jsonWhereClause_run H row columnNames tableAlias (OrExpr left right) out2 (res2, o2)"
  shows "res1 = res2"
proof -
  note sd = side_run_deterministic [OF det]
  from one obtain lv1 le1 p1 rv1 re1 q1 where
    l1: "side_run H row columnNames tableAlias left out1 ((lv1, le1), p1)" and
    r1: "side_run H row columnNames tableAlias right p1 ((rv1, re1), q1)" and
    R1: "(res1, o1) = ((rv1 \<or> lv1, None), q1)"
    by (rule or_run_cases)
  from two obtain lv2 le2 p2 rv2 re2 q2 where
    l2: "side_run H row columnNames tableAlias left out2 ((lv2, le2), p2)" and
    r2: "side_run H row columnNames tableAlias right p2 ((rv2, re2), q2)" and
    R2: "(res2, o2) = ((rv2 \<or> lv2, None), q2)"
    by (rule or_run_cases)
  from sd [OF l1 l2] have "lv1 = lv2" by simp
  moreover from sd [OF r1 r2] have "rv1 = rv2" by simp
  ultimately show ?thesis using R1 R2 by simp
qed

lemma relations_of_deterministic: "deterministic_helpers (relations_of ext)"
  by (simp add: deterministic_helpers_def relations_of_def)

lemma comparison_is_run:
  "jsonWhereClause_run (relations_of ext) row columnNames tableAlias
     (ComparisonExpr operator left right escape) out
     (jsonWhereClause ext row columnNames tableAlias (ComparisonExpr operator left right escape) out)"
proof -
  obtain rendered where rendered:
    "Sprintf_v (ComparisonExpr operator left right escape) rendered" "rendered \<noteq> ''false''"
    using Sprintf_v_other [of "ComparisonExpr operator left right escape"]
    by (auto simp: Sprintf_v_is_false_def)
  show ?thesis
  proof (cases "\<exists>ty val. right = SQLVal ty val")
    case True
    then obtain ty val where right: "right = SQLVal ty val" by blast
    obtain operand err where pt: "evaluateParserType ext ty val = (operand, err)"
      by (cases "evaluateParserType ext ty val")
    show ?thesis
    proof (cases err)
      case (Some e)
      have "jsonWhereClause_run (relations_of ext) row columnNames tableAlias
              (ComparisonExpr operator left (SQLVal ty val) escape) out ((False, Some e), out)"
        using rendered pt Some unfolding right
        by (intro comparison_literal_error [where operand = operand and rendered = rendered])
           (simp_all add: relations_of_def)
      then show ?thesis
        unfolding right by (simp add: jsonWhereClause_ComparisonExpr pt Some)
    next
      case None
      show ?thesis
      proof (cases "\<exists>name qualifier. left = ColName name qualifier")
        case True
        then obtain name qualifier where left: "left = ColName name qualifier" by blast
        have "jsonWhereClause_run (relations_of ext) row columnNames tableAlias
                (ComparisonExpr operator (ColName name qualifier) (SQLVal ty val) escape) out
                (evaluateOperator ext (jsonValue ext (CompliantName ext name) row) operator operand,
                 out)"
          using rendered pt None unfolding right left
          by (intro comparison_column_literal [where operand = operand and rendered = rendered
                and found = "gjson_Get ext row (CompliantName ext name)"])
             (simp_all add: relations_of_def jsonValue_def)
        then show ?thesis
          unfolding right left by (simp add: jsonWhereClause_ComparisonExpr pt None)
      next
        case False
        have "jsonWhereClause_run (relations_of ext) row columnNames tableAlias
                (ComparisonExpr operator left (SQLVal ty val) escape) out ((True, None), out)"
          using rendered pt None False unfolding right
          by (intro comparison_other_literal [where operand = operand and rendered = rendered])
             (simp_all add: relations_of_def)
        moreover have "jsonWhereClause ext row columnNames tableAlias
                (ComparisonExpr operator left (SQLVal ty val) escape) out = ((True, None), out)"
          using False by (cases left) (simp_all add: jsonWhereClause_ComparisonExpr pt None)
        ultimately show ?thesis unfolding right by simp
      qed
    qed
  next
    case False
    then have operand: "(case right of SQLVal ty val \<Rightarrow> evaluateParserType ext ty val
                          | _ \<Rightarrow> (None, None)) = (None, None)"
      by (cases right) simp_all
    show ?thesis
    proof (cases "\<exists>name qualifier. left = ColName name qualifier")
      case True
      then obtain name qualifier where left: "left = ColName name qualifier" by blast
      have "jsonWhereClause_run (relations_of ext) row columnNames tableAlias
              (ComparisonExpr operator (ColName name qualifier) right escape) out
              (evaluateOperator ext (jsonValue ext (CompliantName ext name) row) operator None, out)"
        using rendered False unfolding left
        by (intro comparison_column_other [where rendered = rendered
              and found = "gjson_Get ext row (CompliantName ext name)"])
           (simp_all add: relations_of_def jsonValue_def)
      then show ?thesis
        unfolding left by (simp add: jsonWhereClause_ComparisonExpr operand)
    next
      case left: False
      have "jsonWhereClause_run (relations_of ext) row columnNames tableAlias
              (ComparisonExpr operator left right escape) out ((True, None), out)"
        using rendered False left
        by (intro comparison_other_other [where rendered = rendered]) simp_all
      moreover have "jsonWhereClause ext row columnNames tableAlias
              (ComparisonExpr operator left right escape) out = ((True, None), out)"
        using left by (cases left) (simp_all add: jsonWhereClause_ComparisonExpr operand)
      ultimately show ?thesis by simp
    qed
  qed
qed

lemma side_is_run:
  "side_run (relations_of ext) row columnNames tableAlias side out
     (case side of
        ComparisonExpr operator l r e \<Rightarrow> jsonWhereClause ext row columnNames tableAlias side out
      | _ \<Rightarrow> ((False, None), out))"
proof (cases side)
  case (ComparisonExpr operator l r e)
  show ?thesis
    unfolding ComparisonExpr expr.case
    by (rule side_comparison) (rule comparison_is_run)
qed (simp_all add: side_other)

lemma no_arm_is_run:
  assumes "\<not> Sprintf_v_is_false whereClause"
    and "\<forall>operator e. whereClause \<noteq> IsExpr operator e"
    and "\<forall>operator l f t. whereClause \<noteq> RangeCond operator l f t"
    and "\<forall>operator l r e. whereClause \<noteq> ComparisonExpr operator l r e"
    and "\<forall>l r. whereClause \<noteq> AndExpr l r"
    and "\<forall>l r. whereClause \<noteq> OrExpr l r"
  shows "jsonWhereClause_run H row columnNames tableAlias whereClause out ((True, None), out)"
proof -
  obtain rendered where "Sprintf_v whereClause rendered" "rendered \<noteq> ''false''"
    using Sprintf_v_other [OF assms(1)] by blast
  then show ?thesis
    using assms(2-) by (intro no_arm [where rendered = rendered]) simp_all
qed

lemma function_is_run:
  "jsonWhereClause_run (relations_of ext) row columnNames tableAlias whereClause out
     (jsonWhereClause ext row columnNames tableAlias whereClause out)"
proof (cases whereClause)
  case (AndExpr left right)
  obtain rendered where rendered: "Sprintf_v (AndExpr left right) rendered" "rendered \<noteq> ''false''"
    using Sprintf_v_other [of "AndExpr left right"] by (auto simp: Sprintf_v_is_false_def)
  obtain leftVal lerr out1 where l:
    "(case left of
        ComparisonExpr operator l r e \<Rightarrow> jsonWhereClause ext row columnNames tableAlias left out
      | _ \<Rightarrow> ((False, None), out)) = ((leftVal, lerr), out1)"
    by (metis prod.exhaust)
  obtain rightVal rerr out2 where r:
    "(case right of
        ComparisonExpr operator l r e \<Rightarrow> jsonWhereClause ext row columnNames tableAlias right out1
      | _ \<Rightarrow> ((False, None), out1)) = ((rightVal, rerr), out2)"
    by (metis prod.exhaust)
  have ls: "side_run (relations_of ext) row columnNames tableAlias left out ((leftVal, lerr), out1)"
    using side_is_run [of ext row columnNames tableAlias left out] unfolding l .
  have rs: "side_run (relations_of ext) row columnNames tableAlias right out1 ((rightVal, rerr), out2)"
    using side_is_run [of ext row columnNames tableAlias right out1] unfolding r .
  show ?thesis
  proof (cases lerr)
    case (Some e)
    with and_left_error [OF rendered, of "relations_of ext" row columnNames tableAlias out leftVal e out1] ls
    show ?thesis unfolding AndExpr jsonWhereClause_AndExpr l by simp
  next
    case None
    show ?thesis
    proof (cases rerr)
      case (Some e)
      with None and_right_error [OF rendered, of "relations_of ext" row columnNames tableAlias
             out leftVal out1 rightVal e out2] ls rs
      show ?thesis unfolding AndExpr jsonWhereClause_AndExpr l by (simp add: r)
    next
      case rnone: None
      with None and_both [OF rendered, of "relations_of ext" row columnNames tableAlias
             out leftVal out1 rightVal out2] ls rs
      show ?thesis unfolding AndExpr jsonWhereClause_AndExpr l by (simp add: r)
    qed
  qed
next
  case (OrExpr left right)
  obtain rendered where rendered: "Sprintf_v (OrExpr left right) rendered" "rendered \<noteq> ''false''"
    using Sprintf_v_other [of "OrExpr left right"] by (auto simp: Sprintf_v_is_false_def)
  obtain leftVal lerr out1 where l:
    "(case left of
        ComparisonExpr operator l r e \<Rightarrow> jsonWhereClause ext row columnNames tableAlias left out
      | _ \<Rightarrow> ((False, None), out)) = ((leftVal, lerr), out1)"
    by (metis prod.exhaust)
  obtain rightVal rerr out2 where r:
    "(case right of
        ComparisonExpr operator l r e \<Rightarrow> jsonWhereClause ext row columnNames tableAlias right out1
      | _ \<Rightarrow> ((False, None), out1)) = ((rightVal, rerr), out2)"
    by (metis prod.exhaust)
  have ls: "side_run (relations_of ext) row columnNames tableAlias left out ((leftVal, lerr), out1)"
    using side_is_run [of ext row columnNames tableAlias left out] unfolding l .
  have rs: "side_run (relations_of ext) row columnNames tableAlias right out1 ((rightVal, rerr), out2)"
    using side_is_run [of ext row columnNames tableAlias right out1] unfolding r .
  from or_both [OF rendered ls rs]
  show ?thesis unfolding OrExpr jsonWhereClause_OrExpr l by (simp add: r)
next
  case (ComparisonExpr operator left right escape)
  show ?thesis unfolding ComparisonExpr by (rule comparison_is_run)
next
  case (IsExpr operator e)
  obtain rendered where "Sprintf_v (IsExpr operator e) rendered" "rendered \<noteq> ''false''"
    using Sprintf_v_other [of "IsExpr operator e"] by (auto simp: Sprintf_v_is_false_def)
  then show ?thesis
    unfolding IsExpr jsonWhereClause_IsExpr by (rule is_expr)
next
  case (RangeCond operator left lo hi)
  obtain rendered where rendered:
    "Sprintf_v (RangeCond operator left lo hi) rendered" "rendered \<noteq> ''false''"
    using Sprintf_v_other [of "RangeCond operator left lo hi"]
    by (auto simp: Sprintf_v_is_false_def)
  consider "operator = ''between''" | "operator = ''not between''"
    | "operator \<noteq> ''between''" "operator \<noteq> ''not between''"
    by blast
  then show ?thesis
  proof cases
    case 1
    have "jsonEvaluateBetween (RangeCond ''between'' left lo hi) tableAlias row columnNames out =
            ((False, None),
             snd (jsonEvaluateBetween (RangeCond ''between'' left lo hi) tableAlias row columnNames out))"
      by (simp add: jsonEvaluateBetween_def)
    from range_between [OF rendered [unfolded 1] this]
    show ?thesis
      unfolding RangeCond 1 by (simp add: jsonWhereClause_RangeCond jsonEvaluateBetween_def)
  next
    case 2
    have "jsonEvaluateBetween (RangeCond ''not between'' left lo hi) tableAlias row columnNames out =
            ((False, None),
             snd (jsonEvaluateBetween (RangeCond ''not between'' left lo hi) tableAlias row columnNames
                    out))"
      by (simp add: jsonEvaluateBetween_def)
    from range_not_between [OF rendered [unfolded 2] this]
    show ?thesis
      unfolding RangeCond 2 by (simp add: jsonWhereClause_RangeCond jsonEvaluateBetween_def)
  next
    case 3
    from range_unsupported [OF rendered 3]
    show ?thesis unfolding RangeCond using 3 by (simp add: jsonWhereClause_RangeCond)
  qed
next
  case (BoolVal b)
  show ?thesis
  proof (cases b)
    case True
    have "jsonWhereClause_run (relations_of ext) row columnNames tableAlias (BoolVal True) out
            ((True, None), out)"
      by (rule no_arm_is_run) (simp_all add: Sprintf_v_is_false_def)
    then show ?thesis unfolding BoolVal using True by (simp add: jsonWhereClause_BoolVal)
  next
    case False
    have "jsonWhereClause_run (relations_of ext) row columnNames tableAlias (BoolVal False) out
            ((False, None), out)"
      by (rule false_marker) (simp add: Sprintf_v_def)
    then show ?thesis unfolding BoolVal using False by (simp add: jsonWhereClause_BoolVal)
  qed
qed (simp_all add: jsonWhereClause_fallthrough no_arm_is_run Sprintf_v_is_false_def)

section \<open>jsonRead on a document that is not an object\<close>

lemma jsonRead_not_object:
  "More reader dec \<Longrightarrow> Decode reader dec = ((m, None), dec') \<Longrightarrow> (\<forall>f. m \<noteq> GoMap f) \<Longrightarrow>
   jsonRead reader dec = (Panics, dec')"
  by (cases m) (simp_all add: jsonRead_def)

text \<open>
  A stream that starts with a stray \<open>}\<close>: \<open>More\<close> is false, \<open>Decode\<close> is not
  called, and \<open>jsonRead\<close> returns nil although the input is malformed and not at its
  end.
\<close>

lemma jsonRead_stray_brace:
  \<open>jsonRead \<lparr> More = Decoder_More, Decode = decode \<rparr> ''} {"age": 20}'' =
     (Returns None, ''} {"age": 20}'')\<close>
  by (simp add: jsonRead_def Decoder_More_def isSpace_def)

section \<open>The claims\<close>

text \<open>
  Claim C1. For every record, a WHERE-clause node whose kind is none of the literal
  false marker, \<open>IsExpr\<close>, \<open>RangeCond\<close>, \<open>ComparisonExpr\<close>, \<open>AndExpr\<close>, \<open>OrExpr\<close> is to
  yield \<open>ErrUnsupportedSQLOperation\<close> and never a default boolean. The code has no
  arm for such a node: \<open>NOT ...\<close>, a parenthesised expression, an arithmetic or
  unary expression, a function call, a bare literal or column, a tuple, a list
  argument and every further kind return \<open>true, nil\<close> and print nothing.
\<close>

theorem unsupported_node_returns_true:
  "jsonWhereClause ext row columnNames alias (NotExpr e) out = ((True, None), out) \<and>
   jsonWhereClause ext row columnNames alias (ParenExpr e) out = ((True, None), out) \<and>
   jsonWhereClause ext row columnNames alias (BinaryExpr operator l r) out = ((True, None), out) \<and>
   jsonWhereClause ext row columnNames alias (UnaryExpr operator e) out = ((True, None), out) \<and>
   jsonWhereClause ext row columnNames alias (FuncExpr name es) out = ((True, None), out) \<and>
   jsonWhereClause ext row columnNames alias (SQLVal ty val) out = ((True, None), out) \<and>
   jsonWhereClause ext row columnNames alias (ColName name qualifier) out = ((True, None), out) \<and>
   jsonWhereClause ext row columnNames alias NullVal out = ((True, None), out) \<and>
   jsonWhereClause ext row columnNames alias (ValTuple es) out = ((True, None), out) \<and>
   jsonWhereClause ext row columnNames alias (ListArg val) out = ((True, None), out) \<and>
   jsonWhereClause ext row columnNames alias (OtherExpr kind) out = ((True, None), out)"
  by (simp add: jsonWhereClause_fallthrough)

text \<open>
  Claim C2. For a numeric column value \<open>v\<close> and bounds \<open>lo \<le> hi\<close>,
  \<open>col BETWEEN lo AND hi\<close> is to evaluate to \<open>lo \<le> v \<and> v \<le> hi\<close> and
  \<open>col NOT BETWEEN lo AND hi\<close> to its negation. The code reads neither the column
  nor the bounds: on the record \<open>{"age": 20}\<close> the clause \<open>age BETWEEN 18 AND 25\<close>
  prints one line and returns \<open>false, nil\<close>; on every record and for every column
  and bounds \<open>BETWEEN\<close> returns \<open>false, nil\<close> and \<open>NOT BETWEEN\<close> returns \<open>true, nil\<close>.
\<close>

theorem between_ignores_its_bounds:
  \<open>jsonWhereClause ext ''{"age": 20}'' columnNames alias
     (RangeCond ''between'' (ColName ''age'' []) (SQLVal IntVal ''18'') (SQLVal IntVal ''25'')) out =
     ((False, None),
      out @ [Println [PString '' In jsonEvaluateBetween  alias %#v \<newline> record %#v \<newline>   columnNames  %#v'',
                      PString alias, PString ''{"age": 20}'', PMap columnNames]]) \<and>
   fst (jsonWhereClause ext row columnNames alias (RangeCond ''between'' left from to) out) =
     (False, None) \<and>
   fst (jsonWhereClause ext row columnNames alias (RangeCond ''not between'' left from to) out) =
     (True, None)\<close>
  by (simp add: jsonWhereClause_RangeCond jsonEvaluateBetween_def)

text \<open>
  Claim C3. An \<open>AND\<close> node is to evaluate both sides whatever their kind, nested
  \<open>AND\<close>, \<open>OR\<close> and range conditions included, and to return the conjunction of
  the two results. The code evaluates a side only when it is a \<open>ComparisonExpr\<close>
  and takes \<open>false\<close> for any other side: \<open>(a AND b) AND c\<close> and \<open>c AND (a OR b)\<close>
  never return \<open>true\<close>, whatever \<open>a\<close>, \<open>b\<close> and \<open>c\<close> evaluate to, and the
  conjunction of two range conditions returns \<open>false, nil\<close> without calling
  \<open>jsonEvaluateBetween\<close>.
\<close>

theorem nested_and_is_false:
  "fst (fst (jsonWhereClause ext row columnNames alias (AndExpr (AndExpr a b) c) out)) = False \<and>
   fst (fst (jsonWhereClause ext row columnNames alias (AndExpr c (OrExpr a b)) out)) = False \<and>
   jsonWhereClause ext row columnNames alias
     (AndExpr (RangeCond operator l f t) (RangeCond operator' l' f' t')) out = ((False, None), out)"
  by (simp add: jsonWhereClause_AndExpr split: prod.splits expr.splits)

text \<open>
  A run with the sample parameters on the record \<open>{}\<close>, where an absent column
  equals the empty text: \<open>x = '' AND y = ''\<close> returns \<open>true, nil\<close> and so does
  \<open>z = ''\<close>, and their conjunction \<open>x = '' AND y = '' AND z = ''\<close> returns
  \<open>false, nil\<close>.
\<close>

lemma nested_and_example:
  "jsonWhereClause empty_record_externals ''{}'' Map.empty []
     (AndExpr (ComparisonExpr ''='' (ColName ''x'' []) (SQLVal StrVal []) NilExpr)
              (ComparisonExpr ''='' (ColName ''y'' []) (SQLVal StrVal []) NilExpr)) [] =
     ((True, None), []) \<and>
   jsonWhereClause empty_record_externals ''{}'' Map.empty []
     (ComparisonExpr ''='' (ColName ''z'' []) (SQLVal StrVal []) NilExpr) [] =
     ((True, None), []) \<and>
   jsonWhereClause empty_record_externals ''{}'' Map.empty []
     (AndExpr
        (AndExpr (ComparisonExpr ''='' (ColName ''x'' []) (SQLVal StrVal []) NilExpr)
                 (ComparisonExpr ''='' (ColName ''y'' []) (SQLVal StrVal []) NilExpr))
        (ComparisonExpr ''='' (ColName ''z'' []) (SQLVal StrVal []) NilExpr)) [] =
     ((False, None), [])"
  by (simp add: jsonWhereClause_AndExpr jsonWhereClause_ComparisonExpr empty_record_externals_def
        jsonValue_def Result_String_def)

text \<open>
  Claim C4. An \<open>OR\<close> node is to surface the error of a side when the other side is
  false. The code assigns the error of each recursive call to the blank identifier:
  no \<open>OR\<close> node ever returns an error, and on two comparisons the result is the
  disjunction of the two booleans with a nil error, whatever errors the two
  comparisons return on their own.
\<close>

theorem or_returns_no_error:
  "snd (fst (jsonWhereClause ext row columnNames alias (OrExpr left right) out)) = None \<and>
   jsonWhereClause ext row columnNames alias
     (OrExpr (ComparisonExpr lo ll lr le) (ComparisonExpr ro rl rr re)) out =
     ((fst (fst (jsonWhereClause ext row columnNames alias (ComparisonExpr ro rl rr re) out)) \<or>
       fst (fst (jsonWhereClause ext row columnNames alias (ComparisonExpr lo ll lr le) out)),
       None), out)"
proof
  show "snd (fst (jsonWhereClause ext row columnNames alias (OrExpr left right) out)) = None"
    by (simp add: jsonWhereClause_OrExpr split: prod.splits)
  have l: "snd (jsonWhereClause ext row columnNames alias (ComparisonExpr lo ll lr le) out) = out"
    by (rule ComparisonExpr_keeps_stdout)
  have r: "snd (jsonWhereClause ext row columnNames alias (ComparisonExpr ro rl rr re) out) = out"
    by (rule ComparisonExpr_keeps_stdout)
  show "jsonWhereClause ext row columnNames alias
     (OrExpr (ComparisonExpr lo ll lr le) (ComparisonExpr ro rl rr re)) out =
     ((fst (fst (jsonWhereClause ext row columnNames alias (ComparisonExpr ro rl rr re) out)) \<or>
       fst (fst (jsonWhereClause ext row columnNames alias (ComparisonExpr lo ll lr le) out)),
       None), out)"
    unfolding jsonWhereClause_OrExpr expr.case
    using l r by (auto split: prod.splits)
qed

text \<open>
  A run with the sample parameters on the record \<open>{}\<close>: \<open>name LIKE 'a%'\<close> alone
  returns \<open>false, ErrUnsupportedSQLOperation\<close>, \<open>age = 1\<close> alone returns
  \<open>false, nil\<close>, and \<open>name LIKE 'a%' OR age = 1\<close> returns \<open>false, nil\<close>.
\<close>

lemma or_discards_error_example:
  "jsonWhereClause empty_record_externals ''{}'' Map.empty []
     (ComparisonExpr ''like'' (ColName ''name'' []) (SQLVal StrVal ''a%'') NilExpr) [] =
     ((False, Some ErrUnsupportedSQLOperation), []) \<and>
   jsonWhereClause empty_record_externals ''{}'' Map.empty []
     (ComparisonExpr ''='' (ColName ''age'' []) (SQLVal IntVal ''1'') NilExpr) [] =
     ((False, None), []) \<and>
   jsonWhereClause empty_record_externals ''{}'' Map.empty []
     (OrExpr (ComparisonExpr ''like'' (ColName ''name'' []) (SQLVal StrVal ''a%'') NilExpr)
             (ComparisonExpr ''='' (ColName ''age'' []) (SQLVal IntVal ''1'') NilExpr)) [] =
     ((False, None), [])"
  by (simp add: jsonWhereClause_OrExpr jsonWhereClause_ComparisonExpr empty_record_externals_def
        jsonValue_def Result_String_def)

text \<open>
  Claim C5. A null test (\<open>IS NULL\<close>, \<open>IS NOT NULL\<close>) is to return an explicit
  \<open>ErrUnsupportedSQLOperation\<close>. The \<open>IsExpr\<close> arm of the code is empty (\<open>To be
  Implemented\<close>): on the record \<open>{"status": "ok"}\<close> the clause \<open>status IS NULL\<close>
  returns \<open>true, nil\<close>, and so does every \<open>IsExpr\<close> node on every record.
\<close>

theorem is_null_returns_true:
  \<open>jsonWhereClause ext ''{"status": "ok"}'' columnNames alias
     (IsExpr ''is null'' (ColName ''status'' [])) out = ((True, None), out) \<and>
   jsonWhereClause ext row columnNames alias (IsExpr operator e) out = ((True, None), out)\<close>
  by (simp add: jsonWhereClause_IsExpr)

text \<open>
  Claim C6. A comparison whose left side is not a column reference, or whose right
  side is not a literal, is to fail with \<open>ErrUnsupportedSQLOperation\<close>. The code
  checks neither: \<open>1 = age\<close> (a literal on the left, a column on the right) returns
  \<open>true, nil\<close>, and \<open>a = b\<close> (a column on the right) calls \<open>evaluateOperator\<close> with
  the nil operand and returns whatever it returns.
\<close>

theorem comparison_operands_unchecked:
  "jsonWhereClause ext row columnNames alias
     (ComparisonExpr ''='' (SQLVal IntVal ''1'') (ColName ''age'' []) NilExpr) out =
     ((True, None), out) \<and>
   jsonWhereClause ext row columnNames alias
     (ComparisonExpr ''='' (ColName ''a'' []) (ColName ''b'' []) NilExpr) out =
     (evaluateOperator ext (jsonValue ext (CompliantName ext ''a'') row) ''='' None, out)"
  by (simp add: jsonWhereClause_ComparisonExpr)

text \<open>
  Claim C7. On a range condition \<open>jsonWhereClause\<close> accepts the operators
  \<open>between\<close> and \<open>not between\<close> and returns \<open>false, ErrUnsupportedSQLOperation\<close>
  for any other operator, without calling the delegate. Otherwise it calls the
  delegate once on the node: when the delegate returns an error, that error is
  returned as it is (with the boolean \<open>false\<close>); when it returns none, \<open>between\<close>
  returns the delegate's boolean and \<open>not between\<close> its negation. The output the
  delegate leaves is kept. This holds of the code of \<open>jsonWhereClause\<close> for every
  delegate \<open>between\<close> in the place of \<open>jsonEvaluateBetween\<close>, and
  \<open>jsonWhereClause\<close> itself is that code at \<open>jsonEvaluateBetween\<close>.
\<close>

theorem range_condition_dispatch:
  "jsonWhereClause ext row columnNames alias whereClause out =
     jsonWhereClause_with jsonEvaluateBetween ext row columnNames alias whereClause out \<and>
   jsonWhereClause_with between ext row columnNames alias (RangeCond operator left lo hi) out =
     (if operator \<noteq> ''between'' \<and> operator \<noteq> ''not between''
      then ((False, Some ErrUnsupportedSQLOperation), out)
      else
        (case between (RangeCond operator left lo hi) alias row columnNames out of
           ((myResult, Some e), out') \<Rightarrow> ((False, Some e), out')
         | ((myResult, None), out') \<Rightarrow>
             ((if operator = ''not between'' then \<not> myResult else myResult, None), out')))"
proof
  show "jsonWhereClause ext row columnNames alias whereClause out =
     jsonWhereClause_with jsonEvaluateBetween ext row columnNames alias whereClause out"
    by (rule jsonWhereClause_is_instance)
  show "jsonWhereClause_with between ext row columnNames alias (RangeCond operator left lo hi) out =
     (if operator \<noteq> ''between'' \<and> operator \<noteq> ''not between''
      then ((False, Some ErrUnsupportedSQLOperation), out)
      else
        (case between (RangeCond operator left lo hi) alias row columnNames out of
           ((myResult, Some e), out') \<Rightarrow> ((False, Some e), out')
         | ((myResult, None), out') \<Rightarrow>
             ((if operator = ''not between'' then \<not> myResult else myResult, None), out')))"
    by (subst jsonWhereClause_with.simps)
       (auto simp: Sprintf_v_is_false_def split: prod.splits option.splits)
qed

text \<open>
  On the record \<open>{}\<close> and the node \<open>age ... 18 AND 25\<close>: a delegate that fails
  has its error returned by \<open>between\<close> and by \<open>not between\<close>; a delegate that
  returns \<open>true\<close> gives \<open>true\<close> for \<open>between\<close> and \<open>false\<close> for
  \<open>not between\<close>; the operator \<open>BETWEEN\<close> in upper case is refused; and with the
  delegate of the tree \<open>between\<close> returns \<open>false, nil\<close>.
\<close>

theorem range_condition_dispatch_witness:
  "jsonWhereClause_with failing_between empty_record_externals ''{}'' Map.empty []
     (RangeCond ''between'' (ColName ''age'' []) (SQLVal IntVal ''18'') (SQLVal IntVal ''25'')) [] =
     ((False, Some (OtherError ''bound is not a number'')), []) \<and>
   jsonWhereClause_with failing_between empty_record_externals ''{}'' Map.empty []
     (RangeCond ''not between'' (ColName ''age'' []) (SQLVal IntVal ''18'') (SQLVal IntVal ''25'')) [] =
     ((False, Some (OtherError ''bound is not a number'')), []) \<and>
   jsonWhereClause_with true_between empty_record_externals ''{}'' Map.empty []
     (RangeCond ''between'' (ColName ''age'' []) (SQLVal IntVal ''18'') (SQLVal IntVal ''25'')) [] =
     ((True, None), []) \<and>
   jsonWhereClause_with true_between empty_record_externals ''{}'' Map.empty []
     (RangeCond ''not between'' (ColName ''age'' []) (SQLVal IntVal ''18'') (SQLVal IntVal ''25'')) [] =
     ((False, None), []) \<and>
   jsonWhereClause_with true_between empty_record_externals ''{}'' Map.empty []
     (RangeCond ''BETWEEN'' (ColName ''age'' []) (SQLVal IntVal ''18'') (SQLVal IntVal ''25'')) [] =
     ((False, Some ErrUnsupportedSQLOperation), []) \<and>
   fst (jsonWhereClause empty_record_externals ''{}'' Map.empty []
     (RangeCond ''between'' (ColName ''age'' []) (SQLVal IntVal ''18'') (SQLVal IntVal ''25'')) []) =
     (False, None)"
  by (simp add: range_condition_dispatch [THEN conjunct1]
        range_condition_dispatch [where between = failing_between, THEN conjunct2]
        range_condition_dispatch [where between = true_between, THEN conjunct2]
        range_condition_dispatch [where between = jsonEvaluateBetween, THEN conjunct2]
        failing_between_def true_between_def jsonEvaluateBetween_def)

text \<open>
  Claim C8. \<open>jsonValue\<close> is total and returns a string: for every record and path
  it is the \<open>String()\<close> of what \<open>gjson.Get\<close> returns, and it has no error result.
  For every path that resolves to nothing in the record (the result of \<open>gjson.Get\<close>
  does not exist) it returns the empty string.
\<close>

theorem jsonValue_absent_path:
  "jsonValue ext input row = Result_String (FormatFloat ext) (gjson_Get ext row input) \<and>
   (\<not> Result_Exists (gjson_Get ext row input) \<longrightarrow> jsonValue ext input row = [])"
  by (simp add: jsonValue_def Let_def Result_String_def Result_Exists_def)

theorem jsonValue_absent_path_witness:
  "\<not> Result_Exists (gjson_Get empty_record_externals ''{}'' ''age'') \<and>
   jsonValue empty_record_externals ''age'' ''{}'' = []"
proof -
  have absent: "\<not> Result_Exists (gjson_Get empty_record_externals ''{}'' ''age'')"
    by (simp add: empty_record_externals_def Result_Exists_def)
  with jsonValue_absent_path [of empty_record_externals "''age''" "''{}''"]
  show ?thesis by blast
qed

text \<open>
  Claim C9. Evaluation is deterministic: for every record, column-name mapping,
  alias and node, two invocations of \<open>jsonWhereClause\<close> on the same arguments yield
  the same (boolean, error) pair. Stated of the runs: whatever text \<open>fmt.Sprintf\<close>
  renders for the node in each invocation, whatever is on standard output when
  each starts, and whichever results the helpers hand out, any two runs on the same
  record, mapping, alias and node return the same pair, provided each of
  \<open>evaluateParserType\<close>, \<open>evaluateOperator\<close> and \<open>gjson.Get\<close> returns one result
  per argument list. Nothing in the body of \<open>jsonWhereClause\<close> adds a choice of
  its own.
\<close>

theorem jsonWhereClause_deterministic:
  assumes det: "deterministic_helpers H"
    and one: "jsonWhereClause_run H row columnNames tableAlias whereClause out1 (res1, o1)"
    and two: "jsonWhereClause_run H row columnNames tableAlias whereClause out2 (res2, o2)"
  shows "res1 = res2"
proof (cases whereClause)
  case (AndExpr left right)
  with one two det show ?thesis by (auto dest: and_run_deterministic)
next
  case (OrExpr left right)
  with one two det show ?thesis by (auto dest: or_run_deterministic)
next
  case (ComparisonExpr operator left right escape)
  with one two det show ?thesis by (auto dest: comparison_run_deterministic)
qed (use fixed_arm_run [OF one, where ext = empty_record_externals]
         fixed_arm_run [OF two, where ext = empty_record_externals]
      in simp_all)

text \<open>
  The hypotheses hold of the helpers of the functional model, and what
  \<open>jsonWhereClause\<close> computes is a run: \<open>age = 1\<close> on the record \<open>{}\<close>, once on
  an empty output and once after an earlier line was printed.
\<close>

theorem jsonWhereClause_deterministic_witness:
  "deterministic_helpers (relations_of empty_record_externals) \<and>
   jsonWhereClause_run (relations_of empty_record_externals) ''{}'' Map.empty []
     (ComparisonExpr ''='' (ColName ''age'' []) (SQLVal IntVal ''1'') NilExpr) []
     ((False, None), []) \<and>
   jsonWhereClause_run (relations_of empty_record_externals) ''{}'' Map.empty []
     (ComparisonExpr ''='' (ColName ''age'' []) (SQLVal IntVal ''1'') NilExpr)
     [Println [PString ''earlier line'']]
     (jsonWhereClause empty_record_externals ''{}'' Map.empty []
        (ComparisonExpr ''='' (ColName ''age'' []) (SQLVal IntVal ''1'') NilExpr)
        [Println [PString ''earlier line'']]) \<and>
   fst (jsonWhereClause empty_record_externals ''{}'' Map.empty []
          (ComparisonExpr ''='' (ColName ''age'' []) (SQLVal IntVal ''1'') NilExpr)
          [Println [PString ''earlier line'']]) = (False, None)"
proof -
  let ?H = "relations_of empty_record_externals"
  let ?n = "ComparisonExpr ''='' (ColName ''age'' []) (SQLVal IntVal ''1'') NilExpr"
  let ?later = "jsonWhereClause empty_record_externals ''{}'' Map.empty [] ?n
                  [Println [PString ''earlier line'']]"
  have det: "deterministic_helpers ?H"
    by (rule relations_of_deterministic)
  have "jsonWhereClause empty_record_externals ''{}'' Map.empty [] ?n [] = ((False, None), [])"
    by (simp add: jsonWhereClause_ComparisonExpr empty_record_externals_def jsonValue_def
          Result_String_def)
  with function_is_run [of empty_record_externals "''{}''" Map.empty "[]" ?n "[]"]
  have one: "jsonWhereClause_run ?H ''{}'' Map.empty [] ?n [] ((False, None), [])"
    by simp
  have later: "jsonWhereClause_run ?H ''{}'' Map.empty [] ?n [Println [PString ''earlier line'']]
                 ?later"
    by (rule function_is_run)
  then have two: "jsonWhereClause_run ?H ''{}'' Map.empty [] ?n
                    [Println [PString ''earlier line'']] (fst ?later, snd ?later)"
    by simp
  from jsonWhereClause_deterministic [OF det one two]
  have "fst ?later = (False, None)" by simp
  with det one later show ?thesis by blast
qed

text \<open>
  Claim C10, as amended. \<open>jsonRead\<close> has no error result. When \<open>More\<close> reports
  no further value, or \<open>More\<close> reports one and the first \<open>Decode\<close> returns
  \<open>io.EOF\<close>, it returns nil. When \<open>More\<close> reports a further value and the first
  \<open>Decode\<close> returns another error, \<open>log.Fatal\<close> ends the process and nothing is
  returned. When \<open>More\<close> reports a further value and the first \<open>Decode\<close> succeeds
  with a JSON object, that object is returned as a string-keyed map. A nil result
  is returned in the first two cases and in no other, so it does not tell them
  apart.
\<close>

theorem jsonRead_outcomes:
  "(\<not> More reader dec \<longrightarrow> jsonRead reader dec = (Returns None, dec)) \<and>
   (More reader dec \<and> Decode reader dec = ((m, Some io_EOF), dec') \<longrightarrow>
      jsonRead reader dec = (Returns None, dec')) \<and>
   (More reader dec \<and> Decode reader dec = ((m, Some e), dec') \<and> e \<noteq> io_EOF \<longrightarrow>
      jsonRead reader dec = (Fatal e, dec')) \<and>
   (More reader dec \<and> Decode reader dec = ((GoMap f, None), dec') \<longrightarrow>
      jsonRead reader dec = (Returns (Some f), dec')) \<and>
   ((fst (jsonRead reader dec) = Returns None) =
      (\<not> More reader dec \<or> snd (fst (Decode reader dec)) = Some io_EOF))"
  by (auto simp: jsonRead_def split: prod.splits option.splits go_json.splits if_splits)

text \<open>
  The four cases on concrete streams: an empty one, one whose \<open>Decode\<close> returns
  \<open>io.EOF\<close>, a malformed one and the document \<open>{"age": ...}\<close>.
\<close>

theorem jsonRead_outcomes_witness:
  "\<not> More list_Decoder [] \<and> jsonRead list_Decoder [] = (Returns None, []) \<and>
   More list_Decoder [(GoNil, Some io_EOF)] \<and>
   jsonRead list_Decoder [(GoNil, Some io_EOF)] = (Returns None, []) \<and>
   More list_Decoder [(GoNil, Some (OtherError ''invalid character''))] \<and>
   jsonRead list_Decoder [(GoNil, Some (OtherError ''invalid character''))] =
     (Fatal (OtherError ''invalid character''), []) \<and>
   More list_Decoder [(GoMap [''age'' \<mapsto> GoFloat64 ()], None)] \<and>
   jsonRead list_Decoder [(GoMap [''age'' \<mapsto> GoFloat64 ()], None)] =
     (Returns (Some [''age'' \<mapsto> GoFloat64 ()]), [])"
  using jsonRead_outcomes [of list_Decoder "[]"]
        jsonRead_outcomes [of list_Decoder "[(GoNil, Some io_EOF)]" GoNil "[]"]
        jsonRead_outcomes [of list_Decoder "[(GoNil, Some (OtherError ''invalid character''))]"
           GoNil "[]" "OtherError ''invalid character''"]
        jsonRead_outcomes [of list_Decoder "[(GoMap [''age'' \<mapsto> GoFloat64 ()], None)]"
           _ "[]" _ "[''age'' \<mapsto> GoFloat64 ()]"]
  by (simp add: list_Decoder_def)

text \<open>
  Claim C10 as it was stated has jsonRead return the first decoded document as a
  string-keyed map whenever \<open>Decode\<close> succeeds. On the stream holding the array
  document \<open>[1]\<close> the decoder has more, \<open>Decode\<close> succeeds with a slice, and the type
  assertion panics: no map is returned.
\<close>

theorem jsonRead_array_document_panics:
  "More list_Decoder [(GoSlice [GoFloat64 ()], None)] \<and>
   Decode list_Decoder [(GoSlice [GoFloat64 ()], None)] = ((GoSlice [GoFloat64 ()], None), []) \<and>
   jsonRead list_Decoder [(GoSlice [GoFloat64 ()], None)] = (Panics, [])"
  by (simp add: jsonRead_def list_Decoder_def)

end
